theory Spec2Isabelle
  imports Main "HOL-Library.Sublist" "HOL-Library.AList"
begin

section \<open>Values of the property monitor\<close>

text \<open>
  The monitor of \<^verbatim>\<open>property_monitor.py\<close> scrapes six brokerage sites, compares the
  listings it finds with the snapshot of the previous run, stores the new snapshot and
  mails the listings that were not seen before. An exception is a value carrying the text
  that \<^verbatim>\<open>str(e)\<close> prints into the log.
\<close>

datatype exn = Exn (message: string)

text \<open>
  A listing is the dict the parsers build, always with the same five string entries.
  The entry \<^verbatim>\<open>size\<close> is named \<open>size_str\<close>, since \<open>size\<close> is a constant of HOL.
\<close>

record listing =
  address :: string
  price :: string
  size_str :: string
  link :: string
  found_date :: string

text \<open>An entry of \<^verbatim>\<open>new_listings\<close>: \<^verbatim>\<open>{"site": ..., "details": ...}\<close>.\<close>

record new_listing =
  site :: string
  details :: listing

text \<open>
  A snapshot is the dict from site name to listing list, kept as an association list in
  insertion order; \<^verbatim>\<open>d[k] = v\<close> is \<^const>\<open>AList.update\<close> (an existing key keeps its
  place, a new one goes to the end) and \<^verbatim>\<open>d.get(k, [])\<close> is \<open>get_listings\<close>.
\<close>

type_synonym snapshot = "(string \<times> listing list) list"

definition get_listings :: "snapshot \<Rightarrow> string \<Rightarrow> listing list" where
  "get_listings d k = (case map_of d k of None \<Rightarrow> [] | Some v \<Rightarrow> v)"

subsection \<open>Strings\<close>

text \<open>
  A string is a list of characters, a character being a code point below 256; this
  covers the Danish letters and the no-break space. \<^verbatim>\<open>==\<close>, \<^verbatim>\<open>+\<close> and
  \<^verbatim>\<open>in\<close> on strings are equality, \<open>@\<close> and \<open>str_in\<close>. The library functions
  \<^verbatim>\<open>str.lower\<close> and \<^verbatim>\<open>str.strip\<close> follow the Unicode tables; they are not
  defined here but taken as they are, as the fields \<open>lower\<close> and \<open>strip\<close> of the
  outside world below.
\<close>

text \<open>\<^verbatim>\<open>needle in haystack\<close> on strings: the needle occurs as a contiguous piece.\<close>

fun str_in :: "string \<Rightarrow> string \<Rightarrow> bool" where
  "str_in needle [] = (needle = [])"
| "str_in needle (c # cs) = (prefix needle (c # cs) \<or> str_in needle cs)"

text \<open>\<^verbatim>\<open>s.replace(' ', '-')\<close>.\<close>

definition replace_space :: "string \<Rightarrow> string" where
  "replace_space s = map (\<lambda>c. if c = CHR '' '' then CHR ''-'' else c) s"

text \<open>Decimal text of a number, as an f-string prints it.\<close>

fun str_nat :: "nat \<Rightarrow> string" where
  "str_nat n =
     (if n < 10 then [''0123456789'' ! n]
      else str_nat (n div 10) @ [''0123456789'' ! (n mod 10)])"

declare str_nat.simps [simp del]

definition str_int :: "int \<Rightarrow> string" where
  "str_int i = (if i < 0 then ''-'' @ str_nat (nat (- i)) else str_nat (nat i))"

subsection \<open>The outside world\<close>

text \<open>
  An element of a parsed page, as far as the parsers look at it: its \<^verbatim>\<open>.text\<close>, its
  attributes, and for every CSS selector the elements \<^verbatim>\<open>select\<close> finds below it, in
  document order. \<^verbatim>\<open>select_one\<close> is the first of them or \<^verbatim>\<open>None\<close>, and
  \<^verbatim>\<open>elem['href']\<close> raises \<^verbatim>\<open>KeyError('href')\<close> when the attribute is missing.
\<close>

datatype elem =
  Elem (elem_text: string) (attrs: "(string \<times> string) list")
       (matches: "(string \<times> elem list) list")

definition select :: "elem \<Rightarrow> string \<Rightarrow> elem list" where
  "select e sel = (case map_of (matches e) sel of None \<Rightarrow> [] | Some es \<Rightarrow> es)"

definition select_one :: "elem \<Rightarrow> string \<Rightarrow> elem option" where
  "select_one e sel = (case select e sel of [] \<Rightarrow> None | x # _ \<Rightarrow> Some x)"

definition get_item :: "elem \<Rightarrow> string \<Rightarrow> exn + string" where
  "get_item e k =
     (case map_of (attrs e) k of
        None \<Rightarrow> Inl (Exn ([CHR 0x27] @ k @ [CHR 0x27]))
      | Some v \<Rightarrow> Inr v)"

record response =
  status_code :: int
  resp_text :: string

text \<open>
  How \<^verbatim>\<open>open(..., 'w')\<close> followed by \<^verbatim>\<open>json.dump\<close> will go: it succeeds, or
  \<^verbatim>\<open>open\<close> raises and the file stays as it was, or \<^verbatim>\<open>json.dump\<close> raises the first
  exception after the file was truncated, and what is left no longer loads (a later
  \<^verbatim>\<open>json.load\<close> raises the second exception).
\<close>

datatype write_outcome = Written | OpenFails exn | DumpFails exn exn

text \<open>
  The steps inside the \<^verbatim>\<open>try\<close> of \<^verbatim>\<open>send_notification\<close>, in their order: building
  the message, \<^verbatim>\<open>smtplib.SMTP(...)\<close>, \<^verbatim>\<open>starttls\<close>, \<^verbatim>\<open>login\<close>,
  \<^verbatim>\<open>send_message\<close> and \<^verbatim>\<open>quit\<close>.
\<close>

datatype smtp_step = Compose | Connect | StartTls | Login | SendMessage | Quit

text \<open>
  Everything the run takes from outside: \<^verbatim>\<open>str.lower\<close> and \<^verbatim>\<open>str.strip\<close>
  of the Python library, the answer of \<^verbatim>\<open>requests.get\<close> for a URL,
  what \<^verbatim>\<open>BeautifulSoup(html, 'html.parser')\<close> makes of a page, the date of
  \<^verbatim>\<open>datetime.now()\<close>, how the write of the snapshot will go, and the first step of
  the notification that raises, if one does.
\<close>

record env =
  lower :: "string \<Rightarrow> string"
  strip :: "string \<Rightarrow> string"
  requests_get :: "string \<Rightarrow> exn + response"
  html_parser :: "string \<Rightarrow> exn + elem"
  today :: string
  disk_write :: write_outcome
  smtp_fault :: "(smtp_step \<times> exn) option"

text \<open>
  The file \<^verbatim>\<open>previous_listings.json\<close>: it does not exist, or it exists and
  \<^verbatim>\<open>open\<close> or \<^verbatim>\<open>json.load\<close> raises on it, or it holds a snapshot. The file is only
  ever written by \<^verbatim>\<open>save_listings\<close>, so what loads from it is a snapshot.
\<close>

datatype file_state = NoFile | Unloadable exn | Stored snapshot

datatype level = INFO | ERROR

record email =
  subject :: string
  sender :: string
  recipient :: string
  subtype :: string
  body :: string

text \<open>What a run changes: the log, the snapshot file and the messages delivered by SMTP.\<close>

record state =
  logger :: "(level \<times> string) list"
  json_file :: file_state
  outbox :: "email list"

definition log_info :: "string \<Rightarrow> state \<Rightarrow> state" where
  "log_info msg st = st\<lparr>logger := logger st @ [(INFO, msg)]\<rparr>"

definition log_error :: "string \<Rightarrow> state \<Rightarrow> state" where
  "log_error msg st = st\<lparr>logger := logger st @ [(ERROR, msg)]\<rparr>"

definition emit :: "(level \<times> string) list \<Rightarrow> state \<Rightarrow> state" where
  "emit logs st = st\<lparr>logger := logger st @ logs\<rparr>"

text \<open>
  The monitor object. \<^verbatim>\<open>self.sites\<close> is built in the constructor from the two other
  fields and never changed, so it is the function \<open>sites\<close> below.
\<close>

record monitor =
  target_street :: string
  postal_code :: string
  email_to :: "string option"
  previous_listings :: snapshot

section \<open>The parsers\<close>

text \<open>
  The six parsers are one loop with different selectors, link prefix and name in the
  log message.
\<close>

record markup =
  card_sel :: string
  address_sel :: string
  price_sel :: string
  size_sel :: string
  link_sel :: string
  base_url :: string
  label :: string

text \<open>
  The body of the \<^verbatim>\<open>try\<close> for one card: \<open>Inr None\<close> when nothing is appended (no
  address element, or the street is not in the address), \<open>Inr (Some l)\<close> when \<open>l\<close> is
  appended, \<open>Inl e\<close> when \<open>e\<close> is raised, which only the missing \<^verbatim>\<open>href\<close> does.
\<close>

definition card_listing :: "markup \<Rightarrow> env \<Rightarrow> monitor \<Rightarrow> elem \<Rightarrow> exn + listing option" where
  "card_listing c w self pcard =
     (case select_one pcard (address_sel c) of
        None \<Rightarrow> Inr None
      | Some address_elem \<Rightarrow>
          (let addr = strip w (elem_text address_elem) in
           if str_in (lower w (target_street self)) (lower w addr) then
             (let price_elem = select_one pcard (price_sel c);
                  size_elem = select_one pcard (size_sel c);
                  link_elem = select_one pcard (link_sel c);
                  pr = (case price_elem of
                          Some e \<Rightarrow> strip w (elem_text e)
                        | None \<Rightarrow> ''Price not available'');
                  sz = (case size_elem of
                          Some e \<Rightarrow> strip w (elem_text e)
                        | None \<Rightarrow> ''Size not available'')
              in case (case link_elem of
                         Some e \<Rightarrow> (case get_item e ''href'' of
                                      Inl x \<Rightarrow> Inl x
                                    | Inr h \<Rightarrow> Inr (base_url c @ h))
                       | None \<Rightarrow> Inr ''#'') of
                   Inl x \<Rightarrow> Inl x
                 | Inr lk \<Rightarrow>
                     Inr (Some \<lparr>address = addr, price = pr, size_str = sz, link = lk,
                                found_date = today w\<rparr>))
           else Inr None))"

text \<open>
  The loop over the cards. A parser changes nothing but the log, so it returns the
  log records it emits next to its result, and the caller appends them to the log.
\<close>

type_synonym log_record = "level \<times> string"

fun parse_cards ::
  "markup \<Rightarrow> env \<Rightarrow> monitor \<Rightarrow> elem list \<Rightarrow> listing list \<Rightarrow> log_record list \<Rightarrow>
   listing list \<times> log_record list"
where
  "parse_cards c w self [] listings logs = (listings, logs)"
| "parse_cards c w self (pcard # cards) listings logs =
     (case card_listing c w self pcard of
        Inr None \<Rightarrow> parse_cards c w self cards listings logs
      | Inr (Some l) \<Rightarrow> parse_cards c w self cards (listings @ [l]) logs
      | Inl e \<Rightarrow>
          parse_cards c w self cards listings
            (logs @ [(ERROR, ''Error parsing '' @ label c @ '' property: '' @ message e)]))"

text \<open>
  \<open>Inl e\<close> when \<^verbatim>\<open>BeautifulSoup(...)\<close> raises \<open>e\<close>, before the loop and outside its
  \<^verbatim>\<open>try\<close>; the listings otherwise.
\<close>

definition parse_site ::
  "markup \<Rightarrow> env \<Rightarrow> monitor \<Rightarrow> string \<Rightarrow> (exn + listing list) \<times> log_record list"
where
  "parse_site c w self html_content =
     (case html_parser w html_content of
        Inl e \<Rightarrow> (Inl e, [])
      | Inr soup \<Rightarrow>
          (case parse_cards c w self (select soup (card_sel c)) [] [] of
             (listings, logs) \<Rightarrow> (Inr listings, logs)))"

definition boliga :: markup where
  "boliga = \<lparr>card_sel = ''.propertyitem'', address_sel = ''.address'',
     price_sel = ''.price'', size_sel = ''.size'', link_sel = ''a.property-link'',
     base_url = ''https://www.boliga.dk'', label = ''Boliga''\<rparr>"

definition home :: markup where
  "home = \<lparr>card_sel = ''.property-list-item'', address_sel = ''.property-address'',
     price_sel = ''.property-price'', size_sel = ''.property-size'',
     link_sel = ''a.property-url'', base_url = ''https://home.dk'', label = ''Home''\<rparr>"

definition nybolig :: markup where
  "nybolig = \<lparr>card_sel = ''.propertyCard'', address_sel = ''.propertyCard__address'',
     price_sel = ''.propertyCard__price'', size_sel = ''.propertyCard__areaSize'',
     link_sel = ''a.propertyCard__link'', base_url = ''https://www.nybolig.dk'',
     label = ''Nybolig''\<rparr>"

definition edc :: markup where
  "edc = \<lparr>card_sel = ''.propertyCard'', address_sel = ''.propertyCard__address'',
     price_sel = ''.propertyCard__price'', size_sel = ''.propertyCard__areaSize'',
     link_sel = ''a.propertyCard__link'', base_url = ''https://www.edc.dk'',
     label = ''EDC''\<rparr>"

definition danbolig :: markup where
  "danbolig = \<lparr>card_sel = ''.property-list-item'', address_sel = ''.property-address'',
     price_sel = ''.property-price'', size_sel = ''.property-size'',
     link_sel = ''a.property-link'', base_url = ''https://www.danbolig.dk'',
     label = ''Danbolig''\<rparr>"

definition boligsiden :: markup where
  "boligsiden = \<lparr>card_sel = ''.propertyListItem'',
     address_sel = ''.propertyListItem__address'',
     price_sel = ''.propertyListItem__price'',
     size_sel = ''.propertyListItem__areaSize'',
     link_sel = ''a.propertyListItem__link'', base_url = ''https://www.boligsiden.dk'',
     label = ''Boligsiden''\<rparr>"

definition parse_boliga where "parse_boliga = parse_site boliga"
definition parse_home where "parse_home = parse_site home"
definition parse_nybolig where "parse_nybolig = parse_site nybolig"
definition parse_edc where "parse_edc = parse_site edc"
definition parse_danbolig where "parse_danbolig = parse_site danbolig"
definition parse_boligsiden where "parse_boligsiden = parse_site boligsiden"

section \<open>The snapshot file\<close>

definition load_previous_listings :: "state \<Rightarrow> snapshot \<times> state" where
  "load_previous_listings st =
     (case json_file st of
        NoFile \<Rightarrow> ([], st)
      | Unloadable e \<Rightarrow>
          ([], log_error (''Error loading previous listings: '' @ message e) st)
      | Stored listings \<Rightarrow> (listings, st))"

text \<open>\<open>save_listings\<close> has no handler: what the write raises, it raises.\<close>

definition save_listings :: "env \<Rightarrow> snapshot \<Rightarrow> state \<Rightarrow> (exn + unit) \<times> state" where
  "save_listings w listings st =
     (case disk_write w of
        Written \<Rightarrow> (Inr (), st\<lparr>json_file := Stored listings\<rparr>)
      | OpenFails e \<Rightarrow> (Inl e, st)
      | DumpFails e e' \<Rightarrow> (Inl e, st\<lparr>json_file := Unloadable e'\<rparr>))"

section \<open>The monitor\<close>

record site_entry =
  name :: string
  url :: string
  parser :: "string \<Rightarrow> (exn + listing list) \<times> (level \<times> string) list"

definition sites :: "env \<Rightarrow> monitor \<Rightarrow> site_entry list" where
  "sites w self =
     [\<lparr>name = ''Boliga'',
       url = ''https://www.boliga.dk/resultat?q='' @ target_street self @ ''&postnr='' @
             postal_code self,
       parser = parse_boliga w self\<rparr>,
      \<lparr>name = ''Home'',
       url = ''https://home.dk/ejendomme?searchtext='' @ target_street self @ ''%20'' @
             postal_code self,
       parser = parse_home w self\<rparr>,
      \<lparr>name = ''Nybolig'',
       url = ''https://www.nybolig.dk/til-salg/ejerlejlighed/'' @ postal_code self @ ''/'' @
             target_street self,
       parser = parse_nybolig w self\<rparr>,
      \<lparr>name = ''EDC'',
       url = ''https://www.edc.dk/alle-boliger/'' @ postal_code self @ ''/'' @
             target_street self @ ''/ejerlejlighed/'',
       parser = parse_edc w self\<rparr>,
      \<lparr>name = ''Danbolig'',
       url = ''https://www.danbolig.dk/bolig/s%C3%B8g/?propertytype=5&zipcode='' @
             postal_code self @ ''&address='' @ target_street self,
       parser = parse_danbolig w self\<rparr>,
      \<lparr>name = ''Boligsiden'',
       url = ''https://www.boligsiden.dk/adresse/'' @ replace_space (target_street self) @
             ''-'' @ postal_code self,
       parser = parse_boligsiden w self\<rparr>]"

text \<open>The constructor: the street is lower-cased and the previous snapshot is loaded.\<close>

definition init ::
  "env \<Rightarrow> string \<Rightarrow> string \<Rightarrow> string option \<Rightarrow> state \<Rightarrow> monitor \<times> state"
where
  "init w street postal mail st =
     (case load_previous_listings st of
        (previous, st') \<Rightarrow>
          (\<lparr>target_street = lower w street, postal_code = postal, email_to = mail,
            previous_listings = previous\<rparr>, st'))"

subsection \<open>Comparing with the previous snapshot\<close>

text \<open>The inner loop over \<^verbatim>\<open>previous\<close>, with its \<^verbatim>\<open>break\<close>: the value of \<^verbatim>\<open>is_new\<close>.\<close>

fun is_new :: "listing \<Rightarrow> listing list \<Rightarrow> bool" where
  "is_new l [] = True"
| "is_new l (prev_listing # previous) =
     (if address l = address prev_listing \<and> price l = price prev_listing then False
      else is_new l previous)"

text \<open>The loop over the listings of one site, appending to \<^verbatim>\<open>new_listings\<close>.\<close>

fun check_new ::
  "string \<Rightarrow> listing list \<Rightarrow> listing list \<Rightarrow> new_listing list \<Rightarrow> new_listing list"
where
  "check_new nm previous [] new_listings = new_listings"
| "check_new nm previous (l # listings) new_listings =
     check_new nm previous listings
       (if is_new l previous then new_listings @ [\<lparr>site = nm, details = l\<rparr>]
        else new_listings)"

text \<open>
  One round of the loop over the sites. The loop carries
  \<^verbatim>\<open>all_current_listings\<close>, \<^verbatim>\<open>new_listings\<close> and the state; whatever
  \<^verbatim>\<open>requests.get\<close> or the parser raises is caught and logged.
\<close>

type_synonym scan = "snapshot \<times> new_listing list \<times> state"

definition process_site :: "env \<Rightarrow> monitor \<Rightarrow> site_entry \<Rightarrow> scan \<Rightarrow> scan" where
  "process_site w self s acc =
     (case acc of (all_current_listings, new_listings, st) \<Rightarrow>
        (let st1 = log_info (''Checking '' @ name s @ ''...'') st in
         case requests_get w (url s) of
           Inl e \<Rightarrow>
             (all_current_listings, new_listings,
              log_error (''Error processing '' @ name s @ '': '' @ message e) st1)
         | Inr resp \<Rightarrow>
             if status_code resp = 200 then
               (case parser s (resp_text resp) of
                  (Inl e, logs) \<Rightarrow>
                    (all_current_listings, new_listings,
                     log_error (''Error processing '' @ name s @ '': '' @ message e)
                       (emit logs st1))
                | (Inr listings, logs) \<Rightarrow>
                    (AList.update (name s) listings all_current_listings,
                     check_new (name s) (get_listings (previous_listings self) (name s))
                       listings new_listings,
                     emit logs st1))
             else
               (all_current_listings, new_listings,
                log_error (''Failed to access '' @ name s @ '', status code: '' @
                           str_int (status_code resp)) st1)))"

definition scan_sites :: "env \<Rightarrow> monitor \<Rightarrow> site_entry list \<Rightarrow> scan \<Rightarrow> scan" where
  "scan_sites w self ss acc = foldl (\<lambda>a s. process_site w self s a) acc ss"

subsection \<open>The notification\<close>

definition email_head :: "monitor \<Rightarrow> string" where
  \<open>email_head self =
     ''\<newline>'' @
     ''            <html>\<newline>'' @
     ''            <head>\<newline>'' @
     ''                <style>\<newline>'' @
     ''                    body { font-family: Arial, sans-serif; }\<newline>'' @
     ''                    .property { margin-bottom: 20px; border-bottom: 1px solid #ddd; padding-bottom: 15px; }\<newline>'' @
     ''                    .property h3 { margin-bottom: 5px; color: #444; }\<newline>'' @
     ''                    .details { margin-left: 15px; }\<newline>'' @
     ''                    .source { color: #888; font-style: italic; }\<newline>'' @
     ''                    .view-link { background-color: #4CAF50; color: white; padding: 5px 10px; \<newline>'' @
     ''                                text-decoration: none; border-radius: 4px; display: inline-block; margin-top: 10px; }\<newline>'' @
     ''                </style>\<newline>'' @
     ''            </head>\<newline>'' @
     ''            <body>\<newline>'' @
     ''                <h2>New apartments found on '' @ target_street self @ '', '' @
     postal_code self @ ''</h2>\<newline>'' @
     ''                <p>Here are the new listings found in our latest scan:</p>\<newline>'' @
     ''            ''\<close>

definition email_item :: "new_listing \<Rightarrow> string" where
  \<open>email_item item =
     (let l = details item in
     ''\<newline>'' @
      ''                <div class="property">\<newline>'' @
      ''                    <h3>'' @ address l @ ''</h3>\<newline>'' @
      ''                    <div class="details">\<newline>'' @
      ''                        <p><strong>Price:</strong> '' @ price l @ ''</p>\<newline>'' @
      ''                        <p><strong>Size:</strong> '' @ size_str l @ ''</p>\<newline>'' @
      ''                        <p class="source">Found on: '' @ site item @ '' (on '' @
      found_date l @ '')</p>\<newline>'' @
      ''                        <a href="'' @ link l @
      ''" class="view-link">View Property</a>\<newline>'' @
      ''                    </div>\<newline>'' @
      ''                </div>\<newline>'' @
      ''                '')\<close>

definition email_foot :: string where
  \<open>email_foot =
     ''\<newline>'' @
     ''                <p>This is an automated notification from your Property Monitor.</p>\<newline>'' @
     ''            </body>\<newline>'' @
     ''            </html>\<newline>'' @
     ''            ''\<close>

text \<open>
  \<^verbatim>\<open>if not self.email_to\<close> holds for \<^verbatim>\<open>None\<close> and for the empty string. With an
  address, the message is built and handed to the SMTP session; whatever a step raises
  is caught and logged. The message is delivered when \<^verbatim>\<open>send_message\<close> has returned,
  that is, when no step raises or only \<^verbatim>\<open>quit\<close> does.
\<close>

definition configured :: "monitor \<Rightarrow> bool" where
  "configured self = (case email_to self of None \<Rightarrow> False | Some a \<Rightarrow> a \<noteq> [])"

definition compose :: "monitor \<Rightarrow> new_listing list \<Rightarrow> email" where
  "compose self new_listings =
     \<lparr>subject = ''New Property Listings on '' @ target_street self,
      sender = ''your-email@example.com'',
      recipient = (case email_to self of None \<Rightarrow> [] | Some a \<Rightarrow> a),
      subtype = ''html'',
      body = email_head self @ concat (map email_item new_listings) @ email_foot\<rparr>"

definition send_notification :: "env \<Rightarrow> monitor \<Rightarrow> new_listing list \<Rightarrow> state \<Rightarrow> state" where
  "send_notification w self new_listings st =
     (if \<not> configured self then
        log_info ''No email address configured, skipping notification'' st
      else
        (case smtp_fault w of
           None \<Rightarrow>
             log_info (''Notification email sent to '' @ recipient (compose self new_listings))
               (st\<lparr>outbox := outbox st @ [compose self new_listings]\<rparr>)
         | Some (step, e) \<Rightarrow>
             log_error (''Failed to send email notification: '' @ message e)
               (if step = Quit then st\<lparr>outbox := outbox st @ [compose self new_listings]\<rparr>
                else st)))"

subsection \<open>The run\<close>

text \<open>
  \<open>run\<close> returns \<open>Inr new_listings\<close>, or \<open>Inl e\<close> when it raises \<open>e\<close>, together with the
  state it leaves behind.
\<close>

definition run :: "env \<Rightarrow> monitor \<Rightarrow> state \<Rightarrow> (exn + new_listing list) \<times> state" where
  "run w self st =
     (let st0 = log_info (''Starting property monitor for street: '' @ target_street self @
                          '' in '' @ postal_code self) st
      in case scan_sites w self (sites w self) ([], [], st0) of
           (all_current_listings, new_listings, st1) \<Rightarrow>
             (case save_listings w all_current_listings st1 of
                (Inl e, st2) \<Rightarrow> (Inl e, st2)
              | (Inr u, st2) \<Rightarrow>
                  if new_listings \<noteq> [] then
                    (Inr new_listings,
                     send_notification w self new_listings
                       (log_info (''Found '' @ str_nat (length new_listings) @
                                  '' new listings!'') st2))
                  else (Inr new_listings, log_info ''No new listings found'' st2)))"

section \<open>Notions used to state the properties\<close>

text \<open>
  What the round of a site contributes: its listings when \<^verbatim>\<open>requests.get\<close> answers
  with status 200 and the parser returns, and nothing when the fetch raises, the status
  is another one or the parser raises.
\<close>

definition scraped :: "env \<Rightarrow> site_entry \<Rightarrow> listing list option" where
  "scraped w s =
     (case requests_get w (url s) of
        Inl e \<Rightarrow> None
      | Inr resp \<Rightarrow>
          if status_code resp = 200 then
            (case fst (parser s (resp_text resp)) of
               Inl e \<Rightarrow> None
             | Inr listings \<Rightarrow> Some listings)
          else None)"

text \<open>The snapshot of a run: one entry for every site that contributes, in site order.\<close>

definition scraped_snapshot :: "env \<Rightarrow> monitor \<Rightarrow> snapshot" where
  "scraped_snapshot w self =
     List.map_filter (\<lambda>s. map_option (Pair (name s)) (scraped w s)) (sites w self)"

text \<open>
  The entries a site adds to \<^verbatim>\<open>new_listings\<close>: its listings that the inner loop leaves
  with \<^verbatim>\<open>is_new\<close> true, tagged with the name of the site.
\<close>

definition new_from_site :: "env \<Rightarrow> monitor \<Rightarrow> site_entry \<Rightarrow> new_listing list" where
  "new_from_site w self s =
     (case scraped w s of
        None \<Rightarrow> []
      | Some listings \<Rightarrow>
          map (\<lambda>l. \<lparr>site = name s, details = l\<rparr>)
            (filter (\<lambda>l. is_new l (get_listings (previous_listings self) (name s)))
               listings))"

text \<open>The pair that identifies a listing in the comparison.\<close>

definition listing_key :: "listing \<Rightarrow> string \<times> string" where
  "listing_key l = (address l, price l)"

text \<open>The listings of the cards that yield one, in page order.\<close>

definition card_listings :: "markup \<Rightarrow> env \<Rightarrow> monitor \<Rightarrow> elem list \<Rightarrow> listing list" where
  "card_listings c w self cards =
     List.map_filter
       (\<lambda>pcard. case card_listing c w self pcard of Inr (Some l) \<Rightarrow> Some l | _ \<Rightarrow> None)
       cards"

text \<open>
  Whether a card yields a listing, and the address and price the card shows: the
  stripped text of its address element, and the stripped text of its price element or
  the placeholder.
\<close>

definition yields :: "markup \<Rightarrow> env \<Rightarrow> monitor \<Rightarrow> elem \<Rightarrow> bool" where
  "yields c w self pcard =
     (case card_listing c w self pcard of Inr (Some l) \<Rightarrow> True | _ \<Rightarrow> False)"

definition card_key :: "markup \<Rightarrow> env \<Rightarrow> elem \<Rightarrow> string \<times> string" where
  "card_key c w pcard =
     (case select_one pcard (address_sel c) of
        None \<Rightarrow> ([], [])
      | Some a \<Rightarrow>
          (strip w (elem_text a),
           case select_one pcard (price_sel c) of
             Some e \<Rightarrow> strip w (elem_text e)
           | None \<Rightarrow> ''Price not available''))"

text \<open>The six parsers with their selectors.\<close>

definition parsers ::
  "((env \<Rightarrow> monitor \<Rightarrow> string \<Rightarrow> (exn + listing list) \<times> log_record list) \<times> markup) list"
where
  "parsers =
     [(parse_boliga, boliga), (parse_home, home), (parse_nybolig, nybolig),
      (parse_edc, edc), (parse_danbolig, danbolig), (parse_boligsiden, boligsiden)]"

section \<open>Example inputs\<close>

text \<open>
  The pages and streets of the examples are ASCII text. On ASCII text
  \<^verbatim>\<open>str.lower\<close> maps the letters A to Z to a to z, and \<^verbatim>\<open>str.strip\<close> removes the
  ASCII white space of \<^verbatim>\<open>str.isspace\<close> (codes 9 to 13 and 28 to 32) at both ends;
  the world of the examples has these two functions.
\<close>

definition ascii_lower :: "string \<Rightarrow> string" where
  "ascii_lower s =
     map (\<lambda>c. case map_of (zip ''ABCDEFGHIJKLMNOPQRSTUVWXYZ''
                              ''abcdefghijklmnopqrstuvwxyz'') c of
                 None \<Rightarrow> c
               | Some d \<Rightarrow> d) s"

definition ascii_space :: "char \<Rightarrow> bool" where
  "ascii_space c =
     (c \<in> set [CHR 0x09, CHR 0x0A, CHR 0x0B, CHR 0x0C, CHR 0x0D,
                CHR 0x1C, CHR 0x1D, CHR 0x1E, CHR 0x1F, CHR 0x20])"

definition ascii_strip :: "string \<Rightarrow> string" where
  "ascii_strip s = rev (dropWhile ascii_space (rev (dropWhile ascii_space s)))"

text \<open>
  A result page of Boliga with five cards: a full one, one with an address only, one in
  another street, one without an address element, and one whose link has no
  \<^verbatim>\<open>href\<close>.
\<close>

definition full_card :: elem where
  "full_card =
     Elem [] []
       [(''.address'', [Elem ''  Havneholmen 12, 1561 Kobenhavn V  '' [] []]),
        (''.price'', [Elem '' 4.995.000 kr. '' [] []]),
        (''.size'', [Elem ''95 m2'' [] []]),
        (''a.property-link'', [Elem ''Se bolig'' [(''href'', ''/bolig/12'')] []])]"

definition bare_card :: elem where
  "bare_card = Elem [] [] [(''.address'', [Elem ''HAVNEHOLMEN 14'' [] []])]"

definition other_card :: elem where
  "other_card =
     Elem [] []
       [(''.address'', [Elem ''Kalvebod Brygge 3'' [] []]),
        (''.price'', [Elem ''3.000.000 kr.'' [] []])]"

definition blank_card :: elem where
  "blank_card = Elem [] [] [(''.price'', [Elem ''1 kr.'' [] []])]"

definition nohref_card :: elem where
  "nohref_card =
     Elem [] []
       [(''.address'', [Elem ''Havneholmen 20'' [] []]),
        (''a.property-link'', [Elem ''Se bolig'' [] []])]"

definition boliga_page :: elem where
  "boliga_page =
     Elem [] []
       [(''.propertyitem'', [full_card, bare_card, other_card, blank_card, nohref_card])]"

text \<open>A page that shows the same flat in two cards.\<close>

definition double_page :: elem where
  "double_page = Elem [] [] [(''.propertyitem'', [bare_card, bare_card])]"

text \<open>
  The outside world of the examples: Boliga answers with the page above, Home with
  status 404, the page of Nybolig is rejected by the HTML parser, and the other three
  sites cannot be reached.
\<close>

definition world :: env where
  "world =
     \<lparr>lower = ascii_lower, strip = ascii_strip,
      requests_get = (\<lambda>u.
        if u = ''https://www.boliga.dk/resultat?q=havneholmen&postnr=1561''
        then Inr \<lparr>status_code = 200, resp_text = ''boliga''\<rparr>
        else if u = ''https://home.dk/ejendomme?searchtext=havneholmen%201561''
        then Inr \<lparr>status_code = 404, resp_text = ''Not Found''\<rparr>
        else if u = ''https://www.nybolig.dk/til-salg/ejerlejlighed/1561/havneholmen''
        then Inr \<lparr>status_code = 200, resp_text = ''nybolig''\<rparr>
        else Inl (Exn ''Connection refused'')),
      html_parser = (\<lambda>t.
        if t = ''boliga'' then Inr boliga_page
        else if t = ''double'' then Inr double_page
        else Inl (Exn ''markup rejected'')),
      today = ''2024-05-01'',
      disk_write = Written,
      smtp_fault = None\<rparr>"

text \<open>The same world with Boliga showing the doubled page.\<close>

definition double_world :: env where
  "double_world =
     world\<lparr>requests_get := (\<lambda>u.
        if u = ''https://www.boliga.dk/resultat?q=havneholmen&postnr=1561''
        then Inr \<lparr>status_code = 200, resp_text = ''double''\<rparr>
        else Inl (Exn ''Connection refused''))\<rparr>"

text \<open>
  The same world on a disk that cannot be written, and the same world with a mail
  server that refuses the login.
\<close>

definition readonly_world :: env where
  "readonly_world =
     world\<lparr>disk_write := OpenFails (Exn ''[Errno 13] Permission denied'')\<rparr>"

definition nologin_world :: env where
  "nologin_world =
     world\<lparr>smtp_fault := Some (Login, Exn ''Username and Password not accepted'')\<rparr>"

definition fresh :: state where
  "fresh = \<lparr>logger = [], json_file = NoFile, outbox = []\<rparr>"

text \<open>The state left by an earlier run that saw one of the two flats, a day before.\<close>

definition yesterday :: state where
  "yesterday =
     \<lparr>logger = [],
      json_file = Stored
        [(''Boliga'',
          [\<lparr>address = ''HAVNEHOLMEN 14'', price = ''Price not available'',
            size_str = ''Size not available'', link = ''#'',
            found_date = ''2024-04-30''\<rparr>])],
      outbox = []\<rparr>"

definition returning_monitor :: monitor where
  "returning_monitor =
     fst (init world ''Havneholmen'' ''1561'' (Some ''owner@example.com'') yesterday)"

text \<open>The two listings of the Boliga page.\<close>

definition full_listing :: listing where
  "full_listing =
     \<lparr>address = ''Havneholmen 12, 1561 Kobenhavn V'', price = ''4.995.000 kr.'',
      size_str = ''95 m2'', link = ''https://www.boliga.dk/bolig/12'',
      found_date = ''2024-05-01''\<rparr>"

definition bare_listing :: listing where
  "bare_listing =
     \<lparr>address = ''HAVNEHOLMEN 14'', price = ''Price not available'',
      size_str = ''Size not available'', link = ''#'', found_date = ''2024-05-01''\<rparr>"

text \<open>The monitor of a first run, and the one of the run after it.\<close>

definition first_monitor :: monitor where
  "first_monitor = fst (init world ''Havneholmen'' ''1561'' (Some ''owner@example.com'') fresh)"

definition second_monitor :: monitor where
  "second_monitor =
     fst (init world ''Havneholmen'' ''1561'' (Some ''owner@example.com'')
            (snd (run world first_monitor fresh)))"

section \<open>Auxiliary facts\<close>

lemma log_frame [simp]:
  "json_file (log_info m st) = json_file st"
  "outbox (log_info m st) = outbox st"
  "json_file (log_error m st) = json_file st"
  "outbox (log_error m st) = outbox st"
  "json_file (emit ls st) = json_file st"
  "outbox (emit ls st) = outbox st"
  by (simp_all add: log_info_def log_error_def emit_def)

lemma str_in_sublist: "str_in needle hay = sublist needle hay"
  by (induction hay) (auto simp: sublist_Cons_right)

lemma parse_cards_fst:
  "fst (parse_cards c w self cards listings logs) = listings @ card_listings c w self cards"
  by (induction cards arbitrary: listings logs)
     (auto simp: card_listings_def map_filter_simps split: sum.splits option.splits)

lemma parse_site_fst:
  "fst (parse_site c w self html) =
     (case html_parser w html of
        Inl e \<Rightarrow> Inl e
      | Inr soup \<Rightarrow> Inr (card_listings c w self (select soup (card_sel c))))"
  by (auto simp: parse_site_def split: sum.splits prod.splits)
     (metis parse_cards_fst append_Nil fst_conv)

lemma card_listing_Some:
  assumes "card_listing c w self pcard = Inr (Some l)"
  shows "\<exists>a. select_one pcard (address_sel c) = Some a \<and>
             address l = strip w (elem_text a) \<and>
             str_in (lower w (target_street self)) (lower w (address l)) \<and>
             price l = (case select_one pcard (price_sel c) of
                          Some e \<Rightarrow> strip w (elem_text e)
                        | None \<Rightarrow> ''Price not available'') \<and>
             size_str l = (case select_one pcard (size_sel c) of
                          Some e \<Rightarrow> strip w (elem_text e)
                        | None \<Rightarrow> ''Size not available'') \<and>
             (case select_one pcard (link_sel c) of
                Some e \<Rightarrow> (\<exists>h. get_item e ''href'' = Inr h \<and> link l = base_url c @ h)
              | None \<Rightarrow> link l = ''#'') \<and>
             found_date l = today w"
  using assms
  by (auto simp: card_listing_def Let_def split: option.splits if_splits sum.splits)

lemma card_listings_mem:
  "l \<in> set (card_listings c w self cards) \<longleftrightarrow>
     (\<exists>pcard \<in> set cards. card_listing c w self pcard = Inr (Some l))"
  by (induction cards) (auto simp: card_listings_def map_filter_simps split: sum.splits option.splits)

lemma is_new_iff:
  "is_new l previous \<longleftrightarrow>
     (\<forall>p \<in> set previous. \<not> (address l = address p \<and> price l = price p))"
  by (induction previous) auto

lemma check_new_eq:
  "check_new nm previous listings new_listings =
     new_listings @ map (\<lambda>l. \<lparr>site = nm, details = l\<rparr>) (filter (\<lambda>l. is_new l previous) listings)"
  by (induction listings arbitrary: new_listings) auto

lemma process_site_snapshot:
  "fst (process_site w self s acc) =
     (case scraped w s of None \<Rightarrow> fst acc | Some ls \<Rightarrow> AList.update (name s) ls (fst acc))"
  by (auto simp: process_site_def scraped_def Let_def split: prod.splits sum.splits)

lemma process_site_new:
  "fst (snd (process_site w self s acc)) =
     (case scraped w s of
        None \<Rightarrow> fst (snd acc)
      | Some ls \<Rightarrow> check_new (name s) (get_listings (previous_listings self) (name s)) ls (fst (snd acc)))"
  by (auto simp: process_site_def scraped_def Let_def split: prod.splits sum.splits)

lemma process_site_frame:
  "json_file (snd (snd (process_site w self s acc))) = json_file (snd (snd acc))"
  "outbox (snd (snd (process_site w self s acc))) = outbox (snd (snd acc))"
  by (auto simp: process_site_def Let_def split: prod.splits sum.splits)


lemma scan_sites_Nil [simp]: "scan_sites w self [] acc = acc"
  by (simp add: scan_sites_def)

lemma scan_sites_Cons [simp]:
  "scan_sites w self (s # ss) acc = scan_sites w self ss (process_site w self s acc)"
  by (simp add: scan_sites_def)

lemma scan_sites_append:
  "scan_sites w self (ss @ ts) acc = scan_sites w self ts (scan_sites w self ss acc)"
  by (simp add: scan_sites_def)

lemma scan_sites_new:
  "fst (snd (scan_sites w self ss acc)) = fst (snd acc) @ concat (map (new_from_site w self) ss)"
  by (induction ss arbitrary: acc)
     (auto simp: process_site_new check_new_eq new_from_site_def split: option.splits)

lemma scan_sites_frame:
  "json_file (snd (snd (scan_sites w self ss acc))) = json_file (snd (snd acc))"
  "outbox (snd (snd (scan_sites w self ss acc))) = outbox (snd (snd acc))"
  by (induction ss arbitrary: acc) (auto simp: process_site_frame)

lemma update_fresh_key: "k \<notin> fst ` set d \<Longrightarrow> AList.update k v d = d @ [(k, v)]"
  by (induction d) auto

lemma scan_sites_snapshot:
  assumes "distinct (map name ss)" and "\<forall>s \<in> set ss. name s \<notin> fst ` set (fst acc)"
  shows "fst (scan_sites w self ss acc) =
           fst acc @ List.map_filter (\<lambda>s. map_option (Pair (name s)) (scraped w s)) ss"
  using assms
proof (induction ss arbitrary: acc)
  case Nil
  then show ?case by (simp add: map_filter_simps)
next
  case (Cons s ss)
  have fresh: "\<forall>t \<in> set ss. name t \<notin> fst ` set (fst (process_site w self s acc))"
  proof
    fix t assume t: "t \<in> set ss"
    then have "name t \<in> set (map name ss)" by simp
    then have "name t \<noteq> name s" using Cons.prems(1) by auto
    moreover have "name t \<notin> fst ` set (fst acc)" using Cons.prems(2) t by simp
    moreover have "name s \<notin> fst ` set (fst acc)" using Cons.prems(2) by simp
    ultimately show "name t \<notin> fst ` set (fst (process_site w self s acc))"
      by (auto simp: process_site_snapshot update_fresh_key split: option.splits)
  qed
  show ?case
    using Cons.prems Cons.IH [OF _ fresh]
    by (auto simp: process_site_snapshot update_fresh_key map_filter_simps split: option.splits)
qed

lemma distinct_site_names: "distinct (map name (sites w self))"
  by (simp add: sites_def)

lemma scan_all_snapshot:
  "fst (scan_sites w self (sites w self) ([], new, st)) = scraped_snapshot w self"
  using scan_sites_snapshot [of "sites w self" "([], new, st)" w self]
  by (simp add: distinct_site_names scraped_snapshot_def)

lemma save_listings_Written:
  "disk_write w = Written \<Longrightarrow>
     save_listings w listings st = (Inr (), st\<lparr>json_file := Stored listings\<rparr>)"
  by (simp add: save_listings_def)

lemma send_notification_frame:
  "json_file (send_notification w self nl st) = json_file st"
  by (auto simp: send_notification_def log_info_def log_error_def split: option.splits)

lemma send_notification_outbox:
  "outbox (send_notification w self nl st) =
     outbox st @
       (if configured self \<and> (smtp_fault w = None \<or> (\<exists>e. smtp_fault w = Some (Quit, e)))
        then [compose self nl] else [])"
  by (auto simp: send_notification_def log_info_def log_error_def split: option.splits)

lemma run_fst:
  "fst (run w self st) =
     (case disk_write w of
        Written \<Rightarrow> Inr (concat (map (new_from_site w self) (sites w self)))
      | OpenFails e \<Rightarrow> Inl e
      | DumpFails e e' \<Rightarrow> Inl e)"
  by (simp add: run_def Let_def case_prod_beta save_listings_def scan_sites_new
           split: write_outcome.splits)

lemma run_json_file:
  "json_file (snd (run w self st)) =
     (case disk_write w of
        Written \<Rightarrow> Stored (scraped_snapshot w self)
      | OpenFails e \<Rightarrow> json_file st
      | DumpFails e e' \<Rightarrow> Unloadable e')"
  by (simp add: run_def Let_def case_prod_beta save_listings_def scan_all_snapshot
                scan_sites_frame send_notification_frame
           split: write_outcome.splits)

lemma run_outbox:
  "outbox (snd (run w self st)) =
     outbox st @
       (if disk_write w = Written \<and> concat (map (new_from_site w self) (sites w self)) \<noteq> [] \<and>
           configured self \<and> (smtp_fault w = None \<or> (\<exists>e. smtp_fault w = Some (Quit, e)))
        then [compose self (concat (map (new_from_site w self) (sites w self)))] else [])"
  by (auto simp: run_def Let_def case_prod_beta save_listings_def scan_sites_new
                 scan_sites_frame send_notification_outbox
           split: write_outcome.splits)


lemma card_listing_previous [simp]:
  "card_listing c w (self\<lparr>previous_listings := p\<rparr>) pcard = card_listing c w self pcard"
  by (simp add: card_listing_def Let_def split: option.splits)

lemma card_listing_env [simp]:
  "card_listing c (w\<lparr>smtp_fault := f\<rparr>) self pcard = card_listing c w self pcard"
  "card_listing c (w\<lparr>disk_write := d\<rparr>) self pcard = card_listing c w self pcard"
  by (simp_all add: card_listing_def Let_def split: option.splits sum.splits)

lemma parse_cards_previous [simp]:
  "parse_cards c w (self\<lparr>previous_listings := p\<rparr>) cards ls logs =
     parse_cards c w self cards ls logs"
  by (induction cards arbitrary: ls logs) (auto split: sum.splits option.splits)

lemma parse_cards_smtp [simp]:
  "parse_cards c (w\<lparr>smtp_fault := f\<rparr>) self cards ls logs =
     parse_cards c w self cards ls logs"
  by (induction cards arbitrary: ls logs) (auto split: sum.splits option.splits)

lemma parse_cards_disk [simp]:
  "parse_cards c (w\<lparr>disk_write := d\<rparr>) self cards ls logs =
     parse_cards c w self cards ls logs"
  by (induction cards arbitrary: ls logs) (auto split: sum.splits option.splits)

lemma parse_site_previous [simp]:
  "parse_site c w (self\<lparr>previous_listings := p\<rparr>) = parse_site c w self"
  by (rule ext) (simp add: parse_site_def split: sum.splits)

lemma parse_site_smtp [simp]:
  "parse_site c (w\<lparr>smtp_fault := f\<rparr>) self = parse_site c w self"
  by (rule ext) (simp add: parse_site_def split: sum.splits)

lemma parse_site_disk [simp]:
  "parse_site c (w\<lparr>disk_write := d\<rparr>) self = parse_site c w self"
  by (rule ext) (simp add: parse_site_def split: sum.splits)

lemma sites_previous [simp]: "sites w (self\<lparr>previous_listings := p\<rparr>) = sites w self"
  by (simp add: sites_def parse_boliga_def parse_home_def parse_nybolig_def parse_edc_def
        parse_danbolig_def parse_boligsiden_def)

lemma sites_env [simp]:
  "sites (w\<lparr>smtp_fault := f\<rparr>) self = sites w self"
  "sites (w\<lparr>disk_write := d\<rparr>) self = sites w self"
  by (simp_all add: sites_def parse_boliga_def parse_home_def parse_nybolig_def parse_edc_def
        parse_danbolig_def parse_boligsiden_def)

lemma scraped_env [simp]:
  "scraped (w\<lparr>smtp_fault := f\<rparr>) s = scraped w s"
  "scraped (w\<lparr>disk_write := d\<rparr>) s = scraped w s"
  by (simp_all add: scraped_def)

lemma scraped_snapshot_previous [simp]:
  "scraped_snapshot w (self\<lparr>previous_listings := p\<rparr>) = scraped_snapshot w self"
  by (simp add: scraped_snapshot_def)

lemma new_from_site_env [simp]:
  "new_from_site (w\<lparr>smtp_fault := f\<rparr>) self s = new_from_site w self s"
  by (simp add: new_from_site_def)

lemma scraped_snapshot_env [simp]:
  "scraped_snapshot (w\<lparr>smtp_fault := f\<rparr>) self = scraped_snapshot w self"
  by (simp add: scraped_snapshot_def)

lemma map_of_scraped:
  assumes "distinct (map name ss)" and "s \<in> set ss"
  shows "map_of (List.map_filter (\<lambda>s. map_option (Pair (name s)) (scraped w s)) ss) (name s)
           = scraped w s"
  using assms
proof (induction ss)
  case Nil
  then show ?case by simp
next
  case (Cons t ss)
  show ?case
  proof (cases "s = t")
    case True
    have "name t \<notin> fst ` set (List.map_filter (\<lambda>s. map_option (Pair (name s)) (scraped w s)) ss)"
      using Cons.prems(1) by (auto simp: map_filter_def)
    then have "map_of (List.map_filter (\<lambda>s. map_option (Pair (name s)) (scraped w s)) ss) (name t) = None"
      by (simp add: map_of_eq_None_iff)
    then show ?thesis using True
      by (cases "scraped w t") (simp_all add: map_filter_simps)
  next
    case False
    then have s: "s \<in> set ss" using Cons.prems(2) by simp
    then have "name s \<in> set (map name ss)" by simp
    then have "name s \<noteq> name t" using Cons.prems(1) by auto
    then show ?thesis using Cons.IH s Cons.prems(1)
      by (cases "scraped w t") (simp_all add: map_filter_simps)
  qed
qed

lemma map_of_scraped_snapshot:
  "s \<in> set (sites w self) \<Longrightarrow> map_of (scraped_snapshot w self) (name s) = scraped w s"
  unfolding scraped_snapshot_def by (rule map_of_scraped [OF distinct_site_names])

lemma not_new_in_itself: "l \<in> set ls \<Longrightarrow> \<not> is_new l ls"
  by (auto simp: is_new_iff)

lemma parser_markup: "(p, c) \<in> set parsers \<Longrightarrow> p = parse_site c"
  by (auto simp: parsers_def parse_boliga_def parse_home_def parse_nybolig_def
        parse_edc_def parse_danbolig_def parse_boligsiden_def)

lemma sites_parsers:
  "map (\<lambda>s. (name s, parser s)) (sites w self) =
     map (\<lambda>(p, c). (label c, p w self)) parsers"
  by (simp add: sites_def parsers_def boliga_def home_def nybolig_def edc_def danbolig_def
        boligsiden_def)

lemma site_markup:
  assumes "s \<in> set (sites w self)"
  shows "\<exists>c \<in> set (map snd parsers). name s = label c \<and> parser s = parse_site c w self"
proof -
  have "(name s, parser s) \<in> set (map (\<lambda>s. (name s, parser s)) (sites w self))"
    using assms by (simp add: image_iff) blast
  then have "(name s, parser s) \<in> set (map (\<lambda>(p, c). (label c, p w self)) parsers)"
    by (simp only: sites_parsers)
  then obtain p c where pc: "(p, c) \<in> set parsers" "name s = label c" "parser s = p w self"
    by auto
  then show ?thesis using parser_markup [OF pc(1)] by force
qed

lemma card_listing_key:
  "card_listing c w self pcard = Inr (Some l) \<Longrightarrow> listing_key l = card_key c w pcard"
  by (auto simp: card_listing_def listing_key_def card_key_def Let_def
           split: option.splits if_splits sum.splits)

lemma card_listings_keys:
  "map listing_key (card_listings c w self cards) =
     map (card_key c w) (filter (yields c w self) cards)"
  by (induction cards)
     (auto simp: card_listings_def map_filter_simps yields_def card_listing_key
           split: sum.splits option.splits)

section \<open>Facts about the run\<close>

lemma new_from_site_unfold:
  "new_from_site w self =
     (\<lambda>s. case scraped w s of
            None \<Rightarrow> []
          | Some listings \<Rightarrow>
              map (\<lambda>l. \<lparr>site = name s, details = l\<rparr>)
                (filter (\<lambda>l. \<forall>p \<in> set (get_listings (previous_listings self) (name s)).
                               \<not> (address l = address p \<and> price l = price p))
                   listings))"
  by (rule ext) (simp add: new_from_site_def is_new_iff split: option.splits)

lemma run_Written:
  "disk_write w = Written \<Longrightarrow>
     fst (run w self st) = Inr (concat (map (new_from_site w self) (sites w self)))"
  by (simp add: run_fst)

lemma same_snapshot_nothing_new:
  assumes same: "map_of (previous_listings self) = map_of (scraped_snapshot w self)"
  shows "concat (map (new_from_site w self) (sites w self)) = []"
proof -
  have "new_from_site w self s = []" if s: "s \<in> set (sites w self)" for s
  proof (cases "scraped w s")
    case None
    then show ?thesis by (simp add: new_from_site_def)
  next
    case (Some ls)
    have "map_of (previous_listings self) (name s) = Some ls"
      using map_of_scraped_snapshot [OF s] Some same by simp
    then have "get_listings (previous_listings self) (name s) = ls"
      by (simp add: get_listings_def)
    then show ?thesis using Some
      by (simp add: new_from_site_def not_new_in_itself)
  qed
  then show ?thesis by simp
qed

lemma process_site_failed:
  assumes "(\<exists>e. requests_get w (url s) = Inl e) \<or>
           (\<exists>r. requests_get w (url s) = Inr r \<and>
                (status_code r \<noteq> 200 \<or> (\<exists>e. fst (parser s (resp_text r)) = Inl e)))"
  shows "\<exists>logs msg st'.
           process_site w self s (cur, new, st) = (cur, new, st') \<and>
           logger st' = logger st @ (INFO, ''Checking '' @ name s @ ''...'') # logs @ [(ERROR, msg)] \<and>
           (prefix (''Error processing '' @ name s @ '': '') msg \<or>
            prefix (''Failed to access '' @ name s @ '', status code: '') msg) \<and>
           json_file st' = json_file st \<and> outbox st' = outbox st"
proof -
  consider
    (raised) e where "requests_get w (url s) = Inl e"
  | (status) r where "requests_get w (url s) = Inr r" "status_code r \<noteq> 200"
  | (parse) r e where "requests_get w (url s) = Inr r" "status_code r = 200"
      "fst (parser s (resp_text r)) = Inl e"
    using assms by blast
  then show ?thesis
  proof cases
    case raised
    then show ?thesis
      by (intro exI [of _ "[]"] exI [of _ "''Error processing '' @ name s @ '': '' @ message e"])
         (simp add: process_site_def Let_def log_info_def log_error_def)
  next
    case status
    then show ?thesis
      by (intro exI [of _ "[]"]
            exI [of _ "''Failed to access '' @ name s @ '', status code: '' @
                       str_int (status_code r)"])
         (simp add: process_site_def Let_def log_info_def log_error_def)
  next
    case parse
    then obtain logs where "parser s (resp_text r) = (Inl e, logs)"
      by (cases "parser s (resp_text r)") auto
    then show ?thesis using parse
      by (intro exI [of _ logs] exI [of _ "''Error processing '' @ name s @ '': '' @ message e"])
         (simp add: process_site_def Let_def log_info_def log_error_def emit_def)
  qed
qed

lemma process_site_logger:
  "prefix (logger (snd (snd acc))) (logger (snd (snd (process_site w self s acc))))"
  by (auto simp: process_site_def Let_def log_info_def log_error_def emit_def
           split: prod.splits sum.splits)

lemma scan_sites_logger:
  "prefix (logger (snd (snd acc))) (logger (snd (snd (scan_sites w self ss acc))))"
proof (induction ss arbitrary: acc)
  case Nil
  then show ?case by simp
next
  case (Cons s ss)
  show ?case
    using process_site_logger [of acc w self s] Cons.IH [of "process_site w self s acc"]
    by (auto intro: prefix_order.trans)
qed

lemma send_notification_logger:
  "prefix (logger st) (logger (send_notification w self nl st))"
  by (auto simp: send_notification_def log_info_def log_error_def split: option.splits)

lemma notify_logger:
  "prefix (logger st') (logger (send_notification w self nl (log_info m (st'\<lparr>json_file := f\<rparr>))))"
  using send_notification_logger [of "log_info m (st'\<lparr>json_file := f\<rparr>)" w self nl]
  by (auto simp: log_info_def elim: prefix_order.trans [rotated])

lemma info_logger: "prefix (logger st') (logger (log_info m (st'\<lparr>json_file := f\<rparr>)))"
  by (simp add: log_info_def)

lemma run_logger:
  "prefix
     (logger (snd (snd (scan_sites w self (sites w self)
        ([], [], log_info (''Starting property monitor for street: '' @ target_street self @
                           '' in '' @ postal_code self) st)))))
     (logger (snd (run w self st)))"
  by (simp add: run_def Let_def case_prod_beta save_listings_def notify_logger info_logger
           split: write_outcome.splits)

lemma scraped_failed:
  assumes "(\<exists>e. requests_get w (url s) = Inl e) \<or>
           (\<exists>r. requests_get w (url s) = Inr r \<and>
                (status_code r \<noteq> 200 \<or> (\<exists>e. fst (parser s (resp_text r)) = Inl e)))"
  shows "scraped w s = None"
  using assms by (auto simp: scraped_def split: sum.splits)

lemma new_from_site_tag: "x \<in> set (new_from_site w self t) \<Longrightarrow> site x = name t"
  by (auto simp: new_from_site_def split: option.splits)

lemma run_logs_failed_site:
  assumes s: "s \<in> set (sites w self)"
      and failed: "(\<exists>e. requests_get w (url s) = Inl e) \<or>
           (\<exists>r. requests_get w (url s) = Inr r \<and>
                (status_code r \<noteq> 200 \<or> (\<exists>e. fst (parser s (resp_text r)) = Inl e)))"
  shows "\<exists>msg. (ERROR, msg) \<in> set (logger (snd (run w self st))) \<and>
           (prefix (''Error processing '' @ name s @ '': '') msg \<or>
            prefix (''Failed to access '' @ name s @ '', status code: '') msg)"
proof -
  define acc0 where "acc0 = (([] :: snapshot), ([] :: new_listing list),
    log_info (''Starting property monitor for street: '' @ target_street self @
              '' in '' @ postal_code self) st)"
  obtain before rest where split: "sites w self = before @ s # rest"
    using s by (auto simp: in_set_conv_decomp)
  obtain cur new st0 where before: "scan_sites w self before acc0 = (cur, new, st0)"
    by (metis prod_cases3)
  obtain logs msg st' where round:
    "process_site w self s (cur, new, st0) = (cur, new, st')"
    "logger st' = logger st0 @ (INFO, ''Checking '' @ name s @ ''...'') # logs @ [(ERROR, msg)]"
    "prefix (''Error processing '' @ name s @ '': '') msg \<or>
     prefix (''Failed to access '' @ name s @ '', status code: '') msg"
    using process_site_failed [OF failed, of self cur new st0] by blast
  have "scan_sites w self (sites w self) acc0 = scan_sites w self rest (cur, new, st')"
    by (simp add: split scan_sites_append before round(1))
  then have "prefix (logger st') (logger (snd (snd (scan_sites w self (sites w self) acc0))))"
    using scan_sites_logger [of "(cur, new, st')" w self rest] by simp
  then have "prefix (logger st') (logger (snd (run w self st)))"
    using run_logger [of w self st] unfolding acc0_def by (rule prefix_order.trans)
  then have "set (logger st') \<subseteq> set (logger (snd (run w self st)))"
    by (rule set_mono_prefix)
  moreover have "(ERROR, msg) \<in> set (logger st')" by (simp add: round(2))
  ultimately show ?thesis using round(3) by blast
qed

lemma concat_skip:
  assumes "distinct (map name ss)" and "s \<in> set ss" and "f s = []"
  shows "concat (map f ss) = concat (map f (filter (\<lambda>t. name t \<noteq> name s) ss))"
  using assms
proof (induction ss)
  case Nil
  then show ?case by simp
next
  case (Cons t ss)
  show ?case
  proof (cases "t = s")
    case True
    then have out: "name s \<notin> set (map name ss)" using Cons.prems(1) by simp
    have "name u \<noteq> name s" if "u \<in> set ss" for u
    proof -
      from that have "name u \<in> set (map name ss)" by simp
      with out show ?thesis by auto
    qed
    then have "filter (\<lambda>t. name t \<noteq> name s) ss = ss"
      by (simp add: filter_id_conv)
    then show ?thesis using True Cons.prems(3) by simp
  next
    case False
    then have mem: "s \<in> set ss" using Cons.prems(2) by simp
    then have "name s \<in> set (map name ss)" by simp
    then have "name t \<noteq> name s" using Cons.prems(1) by auto
    then show ?thesis using Cons.IH [OF _ mem Cons.prems(3)] Cons.prems(1) by simp
  qed
qed

lemma run_logger_failed_mail:
  assumes "disk_write w = Written" and "fst (run w self st) \<noteq> Inr []" and "configured self"
      and "smtp_fault w = Some (step, e)"
  shows "last (logger (snd (run w self st))) =
           (ERROR, ''Failed to send email notification: '' @ message e)"
proof -
  have "concat (map (new_from_site w self) (sites w self)) \<noteq> []"
    using assms(1,2) by (simp add: run_fst)
  then show ?thesis using assms(1,3,4)
    by (simp add: run_def Let_def case_prod_beta save_listings_def scan_sites_new
          send_notification_def log_error_def)
qed

section \<open>The examples evaluated\<close>

lemma world_facts:
  "disk_write world = Written"
  "smtp_fault world = None"
  "disk_write nologin_world = Written"
  "smtp_fault nologin_world = Some (Login, Exn ''Username and Password not accepted'')"
  "disk_write double_world = Written"
  "disk_write readonly_world = OpenFails (Exn ''[Errno 13] Permission denied'')"
  by (simp_all add: world_def nologin_world_def double_world_def readonly_world_def)

lemma first_configured: "configured first_monitor"
  by code_simp

lemma world_snapshot:
  "scraped_snapshot world first_monitor = [(''Boliga'', [full_listing, bare_listing])]"
  "scraped_snapshot world second_monitor = [(''Boliga'', [full_listing, bare_listing])]"
  "scraped_snapshot world returning_monitor = [(''Boliga'', [full_listing, bare_listing])]"
  by code_simp+

lemma world_new:
  "concat (map (new_from_site world first_monitor) (sites world first_monitor)) =
     [\<lparr>site = ''Boliga'', details = full_listing\<rparr>,
      \<lparr>site = ''Boliga'', details = bare_listing\<rparr>]"
  "concat (map (new_from_site world returning_monitor) (sites world returning_monitor)) =
     [\<lparr>site = ''Boliga'', details = full_listing\<rparr>]"
  by code_simp+

lemma second_previous:
  "previous_listings second_monitor = [(''Boliga'', [full_listing, bare_listing])]"
  by code_simp

lemma parse_boliga_world:
  "fst (parse_boliga world first_monitor ''boliga'') = Inr [full_listing, bare_listing]"
  by code_simp

lemma home_site_member: "sites world first_monitor ! 1 \<in> set (sites world first_monitor)"
  by (rule nth_mem) (simp add: sites_def)

lemma home_site_fails:
  "requests_get world (url (sites world first_monitor ! 1)) =
     Inr \<lparr>status_code = 404, resp_text = ''Not Found''\<rparr>"
  by code_simp

lemma world_run_log:
  "(ERROR, ''Failed to access Home, status code: 404'') \<in>
     set (logger (snd (run world first_monitor fresh)))"
  by code_simp

lemma nologin_new:
  "fst (run nologin_world first_monitor fresh) =
     Inr [\<lparr>site = ''Boliga'', details = full_listing\<rparr>,
          \<lparr>site = ''Boliga'', details = bare_listing\<rparr>]"
  by code_simp

lemma world_run_first:
  "fst (run world first_monitor fresh) =
     Inr [\<lparr>site = ''Boliga'', details = full_listing\<rparr>,
          \<lparr>site = ''Boliga'', details = bare_listing\<rparr>]"
  by (simp add: run_fst world_facts world_new)

lemma world_file:
  "json_file (snd (run world first_monitor fresh)) =
     Stored [(''Boliga'', [full_listing, bare_listing])]"
  by (simp add: run_json_file world_facts world_snapshot)

lemma world_keys: "distinct (map listing_key [full_listing, bare_listing])"
  by code_simp

section \<open>The claims\<close>

text \<open>
  Claim C1. For every site, a scraped listing is new if and only if no listing of the
  previous list of that site has the same address and the same price, and the listings
  that are new are appended to the list that \<open>run\<close> returns, tagged with the name of
  the site: when the snapshot is written, \<open>run\<close> returns, site after site and in page
  order, exactly the scraped listings without such a match; and the flag \<open>is_new\<close> of the
  inner loop is that condition.
\<close>

theorem run_returns_unseen_listings:
  assumes "disk_write w = Written"
  shows "fst (run w self st) =
           Inr (concat (map
             (\<lambda>s. case scraped w s of
                    None \<Rightarrow> []
                  | Some listings \<Rightarrow>
                      map (\<lambda>l. \<lparr>site = name s, details = l\<rparr>)
                        (filter
                           (\<lambda>l. \<forall>p \<in> set (get_listings (previous_listings self) (name s)).
                                  \<not> (address l = address p \<and> price l = price p))
                           listings))
             (sites w self))) \<and>
         (is_new l previous \<longleftrightarrow>
            (\<forall>p \<in> set previous. \<not> (address l = address p \<and> price l = price p)))"
  using run_Written [OF assms, of self st]
  by (simp add: new_from_site_unfold is_new_iff)

theorem run_returns_unseen_listings_witness:
  "disk_write world = Written \<and>
   fst (run world returning_monitor yesterday) =
     Inr [\<lparr>site = ''Boliga'', details = full_listing\<rparr>]"
  using run_returns_unseen_listings
          [where w = world and self = returning_monitor and st = yesterday]
  by (simp add: world_facts new_from_site_unfold [symmetric] world_new)

text \<open>
  Claim C2. When the snapshot scraped by the run is the same dict as the previous one,
  the run returns the empty list and sends no mail. The run gets to its
  \<^verbatim>\<open>return\<close> when the write of the snapshot does not raise.
\<close>

theorem same_snapshot_no_news:
  assumes "disk_write w = Written"
      and "map_of (previous_listings self) = map_of (scraped_snapshot w self)"
  shows "fst (run w self st) = Inr [] \<and> outbox (snd (run w self st)) = outbox st"
  using assms(1) same_snapshot_nothing_new [OF assms(2)]
  by (simp add: run_fst run_outbox)

theorem same_snapshot_no_news_witness:
  "disk_write world = Written \<and>
   map_of (previous_listings second_monitor) = map_of (scraped_snapshot world second_monitor) \<and>
   fst (run world second_monitor (snd (run world first_monitor fresh))) = Inr [] \<and>
   outbox (snd (run world second_monitor (snd (run world first_monitor fresh)))) =
     outbox (snd (run world first_monitor fresh))"
  using same_snapshot_no_news
          [where w = world and self = second_monitor
             and st = "snd (run world first_monitor fresh)"]
  by (simp add: world_facts second_previous world_snapshot)

text \<open>
  Claim C3. A site whose fetch raises, answers with another status than 200, or whose
  parser raises, is only logged: its round of the loop leaves
  \<^verbatim>\<open>all_current_listings\<close>, \<^verbatim>\<open>new_listings\<close>, the file and the mails as they were
  and appends an error record; that record is in the log at the end of the run; and
  when the snapshot is written the run returns what the other sites contribute and
  stores a snapshot without an entry for the site. No entry of a list that the run
  returns carries the name of the site.
\<close>

theorem failed_site_only_logged:
  assumes "s \<in> set (sites w self)"
      and "(\<exists>e. requests_get w (url s) = Inl e) \<or>
           (\<exists>r. requests_get w (url s) = Inr r \<and>
                (status_code r \<noteq> 200 \<or> (\<exists>e. fst (parser s (resp_text r)) = Inl e)))"
  shows "(\<exists>logs msg st'.
            process_site w self s (cur, new, st0) = (cur, new, st') \<and>
            logger st' =
              logger st0 @ (INFO, ''Checking '' @ name s @ ''...'') # logs @ [(ERROR, msg)] \<and>
            json_file st' = json_file st0 \<and> outbox st' = outbox st0) \<and>
         (\<exists>msg. (ERROR, msg) \<in> set (logger (snd (run w self st))) \<and>
            (prefix (''Error processing '' @ name s @ '': '') msg \<or>
             prefix (''Failed to access '' @ name s @ '', status code: '') msg)) \<and>
         (disk_write w = Written \<longrightarrow>
            fst (run w self st) =
              Inr (concat (map (new_from_site w self)
                     (filter (\<lambda>t. name t \<noteq> name s) (sites w self)))) \<and>
            json_file (snd (run w self st)) = Stored (scraped_snapshot w self) \<and>
            name s \<notin> fst ` set (scraped_snapshot w self)) \<and>
         (\<forall>new_listings. fst (run w self st) = Inr new_listings \<longrightarrow>
            name s \<notin> site ` set new_listings)"
proof -
  have none: "scraped w s = None" by (rule scraped_failed [OF assms(2)])
  have round: "\<exists>logs msg st'.
      process_site w self s (cur, new, st0) = (cur, new, st') \<and>
      logger st' =
        logger st0 @ (INFO, ''Checking '' @ name s @ ''...'') # logs @ [(ERROR, msg)] \<and>
      json_file st' = json_file st0 \<and> outbox st' = outbox st0"
    using process_site_failed [OF assms(2), of self cur new st0] by blast
  have empty: "new_from_site w self s = []"
    by (simp add: new_from_site_def none)
  have skip: "concat (map (new_from_site w self) (sites w self)) =
      concat (map (new_from_site w self) (filter (\<lambda>t. name t \<noteq> name s) (sites w self)))"
    by (rule concat_skip [where f = "new_from_site w self",
          OF distinct_site_names assms(1) empty])
  have "map_of (scraped_snapshot w self) (name s) = None"
    using map_of_scraped_snapshot [OF assms(1)] none by simp
  then have absent: "name s \<notin> fst ` set (scraped_snapshot w self)"
    by (simp add: map_of_eq_None_iff)
  have untagged: "name s \<notin> site ` set new_listings"
    if "fst (run w self st) = Inr new_listings" for new_listings
  proof
    assume "name s \<in> site ` set new_listings"
    then obtain x where x: "x \<in> set new_listings" "site x = name s" by auto
    have "new_listings = concat (map (new_from_site w self)
        (filter (\<lambda>t. name t \<noteq> name s) (sites w self)))"
      using that skip by (cases "disk_write w") (simp_all add: run_fst)
    then obtain t where "name t \<noteq> name s" "x \<in> set (new_from_site w self t)"
      using x(1) by auto
    then show False using new_from_site_tag x(2) by metis
  qed
  show ?thesis
    using round run_logs_failed_site [OF assms, of st] skip absent untagged
    by (simp add: run_fst run_json_file)
qed

theorem failed_site_only_logged_witness:
  "sites world first_monitor ! 1 \<in> set (sites world first_monitor) \<and>
   requests_get world (url (sites world first_monitor ! 1)) =
     Inr \<lparr>status_code = 404, resp_text = ''Not Found''\<rparr> \<and>
   disk_write world = Written \<and>
   (ERROR, ''Failed to access Home, status code: 404'') \<in>
     set (logger (snd (run world first_monitor fresh))) \<and>
   fst (run world first_monitor fresh) =
     Inr [\<lparr>site = ''Boliga'', details = full_listing\<rparr>,
          \<lparr>site = ''Boliga'', details = bare_listing\<rparr>] \<and>
   json_file (snd (run world first_monitor fresh)) =
     Stored [(''Boliga'', [full_listing, bare_listing])]"
proof -
  have failed: "(\<exists>e. requests_get world (url (sites world first_monitor ! 1)) = Inl e) \<or>
      (\<exists>r. requests_get world (url (sites world first_monitor ! 1)) = Inr r \<and>
           (status_code r \<noteq> 200 \<or>
            (\<exists>e. fst (parser (sites world first_monitor ! 1) (resp_text r)) = Inl e)))"
    using home_site_fails by simp
  show ?thesis
    using failed_site_only_logged [OF home_site_member failed, of "[]" "[]" fresh fresh]
      home_site_member home_site_fails world_facts(1) world_run_log world_run_first world_file
    by simp
qed

text \<open>
  Claim C4. A snapshot saved with \<open>save_listings\<close> is what
  \<open>load_previous_listings\<close>, and so the constructor, load afterwards: when the write
  does not raise, the load returns the snapshot and logs nothing.
\<close>

theorem save_load_roundtrip:
  assumes "disk_write w = Written"
  shows "fst (save_listings w listings st) = Inr () \<and>
         load_previous_listings (snd (save_listings w listings st)) =
           (listings, snd (save_listings w listings st)) \<and>
         previous_listings (fst (init w street postal mail (snd (save_listings w listings st)))) =
           listings"
  using assms by (simp add: save_listings_def load_previous_listings_def init_def)

theorem save_load_roundtrip_witness:
  "disk_write world = Written \<and>
   load_previous_listings (snd (save_listings world [(''Boliga'', [full_listing])] fresh)) =
     ([(''Boliga'', [full_listing])],
      \<lparr>logger = [], json_file = Stored [(''Boliga'', [full_listing])], outbox = []\<rparr>)"
  using save_load_roundtrip
          [where w = world and listings = "[(''Boliga'', [full_listing])]" and st = fresh]
  by (simp add: world_facts save_listings_def fresh_def)

text \<open>
  Claim C5. After a run that has written the snapshot, the file holds exactly the dict
  built in that run, one entry for each site that was fetched and parsed, in site order;
  neither the previous snapshot nor the file and state before the run have any influence
  on it.
\<close>

theorem snapshot_replaced:
  assumes "disk_write w = Written"
  shows "json_file (snd (run w self st)) =
           Stored (List.map_filter (\<lambda>s. map_option (Pair (name s)) (scraped w s)) (sites w self)) \<and>
         json_file (snd (run w (self\<lparr>previous_listings := p\<rparr>) st')) =
           json_file (snd (run w self st))"
  using assms by (simp add: run_json_file scraped_snapshot_def)

theorem snapshot_replaced_witness:
  "disk_write world = Written \<and>
   json_file yesterday =
     Stored [(''Boliga'', [bare_listing\<lparr>found_date := ''2024-04-30''\<rparr>])] \<and>
   json_file (snd (run world returning_monitor yesterday)) =
     Stored [(''Boliga'', [full_listing, bare_listing])]"
  using snapshot_replaced [where w = world and self = returning_monitor and st = yesterday]
  by (simp add: world_facts scraped_snapshot_def [symmetric] world_snapshot yesterday_def
        bare_listing_def)

text \<open>
  Claim C6. No failure makes \<open>run\<close> raise. This does not hold for the write of the
  snapshot: \<open>save_listings\<close> has no handler and \<open>run\<close> calls it outside of any, so
  on a disk that cannot be written the run raises what \<^verbatim>\<open>open\<close> raises.
\<close>

theorem run_raises_when_write_fails:
  "fst (run readonly_world first_monitor fresh) = Inl (Exn ''[Errno 13] Permission denied'')"
  by (simp add: run_fst world_facts)

text \<open>
  Claim C7. A failure of the notification changes neither what \<open>run\<close> returns nor the
  snapshot file: both are what they are with a mail server that works; and the failure
  is logged, by \<open>send_notification\<close> for a configured recipient, and as the last record
  of a run that has written the snapshot, found new listings and has a recipient.
\<close>

theorem mail_failure_changes_nothing_else:
  assumes "smtp_fault w = Some (step, e)"
  shows "fst (run w self st) = fst (run (w\<lparr>smtp_fault := None\<rparr>) self st) \<and>
         json_file (snd (run w self st)) =
           json_file (snd (run (w\<lparr>smtp_fault := None\<rparr>) self st)) \<and>
         (configured self \<longrightarrow>
            logger (send_notification w self nl st1) =
              logger st1 @ [(ERROR, ''Failed to send email notification: '' @ message e)]) \<and>
         (disk_write w = Written \<and> fst (run w self st) \<noteq> Inr [] \<and> configured self \<longrightarrow>
            last (logger (snd (run w self st))) =
              (ERROR, ''Failed to send email notification: '' @ message e))"
proof -
  have "new_from_site (w\<lparr>smtp_fault := None\<rparr>) self = new_from_site w self"
    by (rule ext) simp
  then have "fst (run w self st) = fst (run (w\<lparr>smtp_fault := None\<rparr>) self st)"
    by (simp add: run_fst split: write_outcome.splits)
  moreover have "json_file (snd (run w self st)) =
      json_file (snd (run (w\<lparr>smtp_fault := None\<rparr>) self st))"
    by (simp add: run_json_file split: write_outcome.splits)
  moreover have "configured self \<longrightarrow>
      logger (send_notification w self nl st1) =
        logger st1 @ [(ERROR, ''Failed to send email notification: '' @ message e)]"
    using assms by (simp add: send_notification_def log_error_def)
  ultimately show ?thesis using run_logger_failed_mail [OF _ _ _ assms] by blast
qed

theorem mail_failure_changes_nothing_else_witness:
  "smtp_fault nologin_world = Some (Login, Exn ''Username and Password not accepted'') \<and>
   disk_write nologin_world = Written \<and> configured first_monitor \<and>
   fst (run nologin_world first_monitor fresh) =
     fst (run (nologin_world\<lparr>smtp_fault := None\<rparr>) first_monitor fresh) \<and>
   json_file (snd (run nologin_world first_monitor fresh)) =
     json_file (snd (run (nologin_world\<lparr>smtp_fault := None\<rparr>) first_monitor fresh)) \<and>
   last (logger (snd (run nologin_world first_monitor fresh))) =
     (ERROR, ''Failed to send email notification: Username and Password not accepted'')"
  using mail_failure_changes_nothing_else
          [where w = nologin_world and self = first_monitor and st = fresh and step = Login
             and e = "Exn ''Username and Password not accepted''"]
  by (simp add: world_facts first_configured nologin_new)

text \<open>
  Claim C8, as stated, says that one mail is sent whenever there are new listings and a
  recipient. It fails when the mail server refuses the login: two new listings, a
  recipient, and no mail.
\<close>

theorem no_mail_when_login_refused:
  "fst (run nologin_world first_monitor fresh) =
     Inr [\<lparr>site = ''Boliga'', details = full_listing\<rparr>,
          \<lparr>site = ''Boliga'', details = bare_listing\<rparr>] \<and>
   configured first_monitor \<and>
   outbox (snd (run nologin_world first_monitor fresh)) = []"
  by code_simp

text \<open>
  Claim C8, amended. A run that returns sends at most one mail, an HTML one; it sends
  one if and only if there are new listings, a recipient is configured (an address that
  is not empty) and no step of the notification raises before \<^verbatim>\<open>send_message\<close> has
  returned. Without a recipient \<open>send_notification\<close> only logs that it skips.
\<close>

theorem mail_sent_when_delivered:
  assumes "fst (run w self st) = Inr new_listings"
  shows "outbox (snd (run w self st)) =
           outbox st @
             (if new_listings \<noteq> [] \<and> configured self \<and>
                 (smtp_fault w = None \<or> (\<exists>e. smtp_fault w = Some (Quit, e)))
              then [compose self new_listings] else []) \<and>
         subtype (compose self new_listings) = ''html'' \<and>
         (\<not> configured self \<longrightarrow>
            send_notification w self nl st1 =
              log_info ''No email address configured, skipping notification'' st1)"
proof -
  have w: "disk_write w = Written"
    using assms by (cases "disk_write w") (simp_all add: run_fst)
  then have "new_listings = concat (map (new_from_site w self) (sites w self))"
    using assms by (simp add: run_fst)
  then show ?thesis using w
    by (simp add: run_outbox compose_def send_notification_def)
qed

theorem mail_sent_when_delivered_witness:
  "fst (run world first_monitor fresh) =
     Inr [\<lparr>site = ''Boliga'', details = full_listing\<rparr>,
          \<lparr>site = ''Boliga'', details = bare_listing\<rparr>] \<and>
   outbox (snd (run world first_monitor fresh)) =
     [compose first_monitor
        [\<lparr>site = ''Boliga'', details = full_listing\<rparr>,
         \<lparr>site = ''Boliga'', details = bare_listing\<rparr>]] \<and>
   subtype (compose first_monitor
        [\<lparr>site = ''Boliga'', details = full_listing\<rparr>,
         \<lparr>site = ''Boliga'', details = bare_listing\<rparr>]) = ''html''"
proof -
  have empty: "outbox fresh = []" by (simp add: fresh_def)
  show ?thesis
    using mail_sent_when_delivered [OF world_run_first] empty
    by (simp add: world_run_first world_facts first_configured)
qed

text \<open>
  Claim C9, as stated, says that no list of a stored snapshot has two listings with the
  same address and price. The parsers append one listing per card and remove nothing: a
  page that shows a flat in two cards is stored with the listing twice.
\<close>

theorem duplicate_cards_stored_twice:
  "json_file (snd (run double_world first_monitor fresh)) =
     Stored [(''Boliga'', [bare_listing, bare_listing])] \<and>
   listing_key bare_listing = (''HAVNEHOLMEN 14'', ''Price not available'') \<and>
   \<not> distinct (map listing_key [bare_listing, bare_listing])"
  by code_simp

text \<open>
  Claim C9, amended. In the snapshot stored by a run, the list of a site holds one
  listing for every card of the page that yields one, in page order; so no two of its
  listings have the same address and price if and only if no two of those cards show the
  same address and price.
\<close>

theorem stored_listings_follow_cards:
  assumes "disk_write w = Written"
      and "json_file (snd (run w self st)) = Stored snap"
      and "(nm, listings) \<in> set snap"
  shows "\<exists>c s r soup.
           c \<in> set (map snd parsers) \<and> label c = nm \<and>
           s \<in> set (sites w self) \<and> name s = nm \<and>
           requests_get w (url s) = Inr r \<and> status_code r = 200 \<and>
           html_parser w (resp_text r) = Inr soup \<and>
           listings = card_listings c w self (select soup (card_sel c)) \<and>
           map listing_key listings =
             map (card_key c w) (filter (yields c w self) (select soup (card_sel c))) \<and>
           (distinct (map listing_key listings) \<longleftrightarrow>
              distinct (map (card_key c w) (filter (yields c w self) (select soup (card_sel c)))))"
proof -
  have "snap = scraped_snapshot w self"
    using assms(1,2) by (simp add: run_json_file)
  then obtain s where s: "s \<in> set (sites w self)" "name s = nm" "scraped w s = Some listings"
    using assms(3) by (auto simp: scraped_snapshot_def map_filter_def)
  obtain c where c: "c \<in> set (map snd parsers)" "name s = label c"
      "parser s = parse_site c w self"
    using site_markup [OF s(1)] by blast
  obtain r where r: "requests_get w (url s) = Inr r" "status_code r = 200"
      "fst (parse_site c w self (resp_text r)) = Inr listings"
    using s(3) c(3) by (auto simp: scraped_def split: sum.splits if_splits)
  obtain soup where soup: "html_parser w (resp_text r) = Inr soup"
      "listings = card_listings c w self (select soup (card_sel c))"
    using r(3) by (auto simp: parse_site_fst split: sum.splits)
  have "map listing_key listings =
      map (card_key c w) (filter (yields c w self) (select soup (card_sel c)))"
    by (simp add: soup(2) card_listings_keys)
  then show ?thesis using s c r soup by (metis (no_types, lifting))
qed

theorem stored_listings_follow_cards_witness:
  "disk_write world = Written \<and>
   json_file (snd (run world first_monitor fresh)) =
     Stored [(''Boliga'', [full_listing, bare_listing])] \<and>
   (''Boliga'', [full_listing, bare_listing]) \<in> set [(''Boliga'', [full_listing, bare_listing])] \<and>
   distinct (map listing_key [full_listing, bare_listing])"
proof -
  have mem: "(''Boliga'', [full_listing, bare_listing]) \<in>
      set [(''Boliga'', [full_listing, bare_listing])]"
    by simp
  show ?thesis
    using stored_listings_follow_cards [OF world_facts(1) world_file mem] world_facts(1)
      world_file world_keys
    by simp
qed

text \<open>
  Claim C10. Every listing returned by one of the six parsers comes from a card of the
  page with an address element: its address is that element's text after
  \<^verbatim>\<open>strip()\<close>, and the \<^verbatim>\<open>lower()\<close> of the monitor's street, which is itself the
  \<^verbatim>\<open>lower()\<close> of the street given to the constructor, occurs in the
  \<^verbatim>\<open>lower()\<close> of the address, whatever the two library functions do to the
  characters; it has the five entries
  address, price, size, link and date; price and size are the stripped texts of their
  elements or the placeholders when the element is missing; the link is the prefix of
  the site followed by the \<^verbatim>\<open>href\<close>, or \<^verbatim>\<open>#\<close> when there is no link element.
\<close>

theorem parsed_listing_shape:
  assumes "(p, c) \<in> set parsers"
      and "fst (p w self html_content) = Inr listings"
      and "l \<in> set listings"
  shows "sublist (lower w (target_street self)) (lower w (address l)) \<and>
         (self = fst (init w street postal mail st0) \<longrightarrow>
            sublist (lower w (lower w street)) (lower w (address l))) \<and>
         l = \<lparr>address = address l, price = price l, size_str = size_str l, link = link l,
              found_date = found_date l\<rparr> \<and>
         (\<exists>soup pcard a.
            html_parser w html_content = Inr soup \<and>
            pcard \<in> set (select soup (card_sel c)) \<and>
            select_one pcard (address_sel c) = Some a \<and>
            address l = strip w (elem_text a) \<and>
            price l = (case select_one pcard (price_sel c) of
                         Some e \<Rightarrow> strip w (elem_text e)
                       | None \<Rightarrow> ''Price not available'') \<and>
            size_str l = (case select_one pcard (size_sel c) of
                            Some e \<Rightarrow> strip w (elem_text e)
                          | None \<Rightarrow> ''Size not available'') \<and>
            (case select_one pcard (link_sel c) of
               Some e \<Rightarrow> (\<exists>h. get_item e ''href'' = Inr h \<and> link l = base_url c @ h)
             | None \<Rightarrow> link l = ''#'') \<and>
            found_date l = today w)"
proof -
  have p: "p = parse_site c" by (rule parser_markup [OF assms(1)])
  obtain soup where soup: "html_parser w html_content = Inr soup"
      "listings = card_listings c w self (select soup (card_sel c))"
    using assms(2) unfolding p by (auto simp: parse_site_fst split: sum.splits)
  obtain pcard where pcard: "pcard \<in> set (select soup (card_sel c))"
      "card_listing c w self pcard = Inr (Some l)"
    using assms(3) unfolding soup(2) card_listings_mem by blast
  obtain a where a: "select_one pcard (address_sel c) = Some a"
      "address l = strip w (elem_text a)"
      "str_in (lower w (target_street self)) (lower w (address l))"
      "price l = (case select_one pcard (price_sel c) of
                    Some e \<Rightarrow> strip w (elem_text e) | None \<Rightarrow> ''Price not available'')"
      "size_str l = (case select_one pcard (size_sel c) of
                    Some e \<Rightarrow> strip w (elem_text e) | None \<Rightarrow> ''Size not available'')"
      "(case select_one pcard (link_sel c) of
          Some e \<Rightarrow> (\<exists>h. get_item e ''href'' = Inr h \<and> link l = base_url c @ h)
        | None \<Rightarrow> link l = ''#'')"
      "found_date l = today w"
    using card_listing_Some [OF pcard(2)] by blast
  have sub: "sublist (lower w (target_street self)) (lower w (address l))"
    using a(3) by (simp add: str_in_sublist)
  have "target_street (fst (init w street postal mail st0)) = lower w street"
    by (simp add: init_def split: prod.splits)
  then have "self = fst (init w street postal mail st0) \<longrightarrow>
      sublist (lower w (lower w street)) (lower w (address l))"
    using sub by auto
  moreover note sub
  moreover have "l = \<lparr>address = address l, price = price l, size_str = size_str l,
      link = link l, found_date = found_date l\<rparr>"
    by simp
  ultimately show ?thesis using soup(1) pcard(1) a by blast
qed

theorem parsed_listing_shape_witness:
  "(parse_boliga, boliga) \<in> set parsers \<and>
   fst (parse_boliga world first_monitor ''boliga'') = Inr [full_listing, bare_listing] \<and>
   bare_listing \<in> set [full_listing, bare_listing] \<and>
   sublist (lower world (target_street first_monitor))
     (lower world (address bare_listing)) \<and>
   price bare_listing = ''Price not available'' \<and>
   size_str bare_listing = ''Size not available'' \<and> link bare_listing = ''#''"
proof -
  have p: "(parse_boliga, boliga) \<in> set parsers" by (simp add: parsers_def)
  have l: "bare_listing \<in> set [full_listing, bare_listing]" by simp
  show ?thesis
    using parsed_listing_shape [OF p parse_boliga_world l] p parse_boliga_world
    by (simp add: bare_listing_def)
qed

end
